theory Spec2Isabelle
  imports Main "HOL-Library.Sublist"
begin

section \<open>Errors, gRPC status codes\<close>

text \<open>
  A Go \<open>error\<close> is an interface value with one method, \<open>Error() string\<close>. The
  handlers of \<open>api/handler/v1/runtime.go\<close> never inspect an error beyond calling
  \<open>Error()\<close>. The kinds are the taxonomy of the specification (section 7);
  \<open>TransportError\<close> stands for a failed write on the response stream. A \<open>nil\<close>
  error is \<open>None\<close> of \<open>error option\<close>.
\<close>

datatype error_kind =
    NotFoundError | AdaptationError | PersistenceError | SyncError
  | DestinationResolutionError | InvalidDependencyError | SerializationError
  | TransportError

datatype error = GoError (kind: error_kind) (Error: string)

text \<open>\<open>google.golang.org/grpc/codes\<close>: the canonical status codes.\<close>

datatype codes =
    OK | Canceled | Unknown | InvalidArgument | DeadlineExceeded | NotFound
  | AlreadyExists | PermissionDenied | ResourceExhausted | FailedPrecondition
  | Aborted | OutOfRange | Unimplemented | Internal | Unavailable | DataLoss
  | Unauthenticated

text \<open>\<open>status.Error(c, msg)\<close>: the terminal error of an RPC.\<close>

datatype status = Status (code: codes) (message: string)

text \<open>
  A Go call either returns or panics (a nil dereference unwinds the goroutine).
\<close>

datatype 'a result = Return 'a | Panic string

definition nil_dereference :: string where
  "nil_dereference = ''runtime error: invalid memory address or nil pointer dereference''"

section \<open>The job model (package models)\<close>

text \<open>
  The declarations of package \<open>models\<close> are not among the sources; the fields are
  those of the composite literals of \<open>TestJobAdapter\<close> and of section 3 of the
  specification. Go selects a field by its bare name (\<open>p.Name\<close>); here each field
  carries a prefix for its struct, since several structs share the names
  \<open>Name\<close>, \<open>Config\<close>, \<open>Value\<close>. A project's \<open>Config\<close> is a map that none of the
  code here reads; it is kept as the list of its entries.
\<close>

record ProjectSpec =
  project_Name :: string
  project_Config :: "(string \<times> string) list"

record JobSpecLabelItem =
  label_Name :: string
  label_Value :: string

record JobSpecBehavior =
  CatchUp :: bool
  DependsOnPast :: bool

text \<open>\<open>time.Time\<close> as seconds since the Unix epoch, \<open>time.Duration\<close> as nanoseconds.\<close>

record JobSpecSchedule =
  StartDate :: int
  Interval :: string

record JobSpecConfigItem =
  config_Name :: string
  config_Value :: string

type_synonym JobSpecConfigs = "JobSpecConfigItem list"

record JobSpecTaskWindow =
  Size :: int
  Offset :: int
  TruncateTo :: string

record JobSpecAsset =
  asset_Name :: string
  asset_Value :: string

text \<open>\<open>models.UnitData\<close>: what \<open>GenerateDestination\<close> receives.\<close>

record UnitData =
  unitdata_Config :: JobSpecConfigs
  unitdata_Assets :: "string \<rightharpoonup> string"

text \<open>
  The execution unit and hook unit capabilities (interfaces in Go): an implementation
  is the record of its methods.
\<close>

record ExecutionUnit =
  GetName :: string
  GetImage :: string
  GetDescription :: string
  GenerateDestination :: "UnitData \<Rightarrow> error + string"

datatype HookType = HookTypePre | HookTypePost

record HookUnit =
  hook_GetName :: string
  hook_GetImage :: string
  hook_GetDescription :: string
  hook_GetType :: HookType
  hook_GetDependsOn :: "string list"

record JobSpecTask =
  task_Unit :: ExecutionUnit
  task_Config :: JobSpecConfigs
  task_Priority :: int
  task_Window :: JobSpecTaskWindow

record JobSpecHook =
  hookspec_Config :: JobSpecConfigs
  hookspec_Unit :: HookUnit

text \<open>
  \<open>JobSpecDependencyType\<close> and its \<open>String()\<close>: section 3 names \<open>Intra\<close> and
  \<open>Inter\<close>, section 8 gives the text \<open>"inter"\<close>.
\<close>

datatype JobSpecDependencyType = JobSpecDependencyTypeIntra | JobSpecDependencyTypeInter

fun String :: "JobSpecDependencyType \<Rightarrow> string" where
  "String JobSpecDependencyTypeIntra = ''intra''"
| "String JobSpecDependencyTypeInter = ''inter''"

text \<open>
  A dependency: \<open>Project\<close> is a pointer (\<open>nil\<close> is \<open>None\<close>: the same project);
  \<open>Job\<close> is the referenced job, "at minimum a name" (section 3), kept as that name.
\<close>

record JobSpecDependency =
  dep_Project :: "ProjectSpec option"
  dep_JobName :: string
  dep_Type :: JobSpecDependencyType

text \<open>
  \<open>Dependencies\<close> is a Go \<open>map[string]JobSpecDependency\<close>. A \<open>range\<close> over a Go
  map visits every entry once, in an order the language leaves open; the list holds
  the entries in the order in which the range visits them.
\<close>

record JobSpec =
  job_Name :: string
  job_Owner :: string
  job_Version :: int
  job_Labels :: "JobSpecLabelItem list"
  job_Behavior :: JobSpecBehavior
  job_Schedule :: JobSpecSchedule
  job_Task :: JobSpecTask
  job_Assets :: "JobSpecAsset list"
  job_Dependencies :: "(string \<times> JobSpecDependency) list"
  job_Hooks :: "JobSpecHook list"

section \<open>Wire messages (package pb)\<close>

text \<open>
  The generated protobuf types are not among the sources. The handlers hand a wire job
  and a wire project to the adapter unread, so each is kept as an opaque payload; of
  the other messages, the fields are those the handlers read or set.
\<close>

datatype JobSpecification = JobSpecification string

datatype ProjectSpecification = ProjectSpecification string

record VersionRequest =
  Client :: string

record VersionResponse =
  Server :: string

record DeploySpecificationRequest =
  deploy_ProjectName :: string
  deploy_Jobs :: "JobSpecification list"

record DeploySpecificationResponse =
  Succcess :: bool
  JobName :: string
  Message :: string

record GetJobRequest =
  getjob_ProjectName :: string
  getjob_JobName :: string

record GetJobResponse =
  resp_Project :: ProjectSpecification
  resp_Job :: JobSpecification

section \<open>Progress events\<close>

text \<open>
  \<open>progress.Event\<close> is an interface; \<open>*job.EventJobUpload\<close> is the one type the
  relay recognises. \<open>EventOther\<close> is an event of any other dynamic type.
\<close>

datatype Event = is_EventJobUpload: EventJobUpload JobSpec "error option" | EventOther string

section \<open>The trace of effects\<close>

text \<open>
  Every call a handler makes on a collaborator is recorded, in order, with what the
  collaborator returned. A collaborator's answer may depend on its arguments and on
  everything that happened before (the trace up to the call).
\<close>

datatype call =
    RepoGetByName string "error + ProjectSpec"
  | AdapterFromJobProto JobSpecification "error + JobSpec"
  | JobCreate JobSpec ProjectSpec "error option"
  | JobSync ProjectSpec
  | JobGetByName string ProjectSpec "error + JobSpec"
  | AdapterToJobProto JobSpec "error + JobSpecification"
  | AdapterToProjectProto ProjectSpec
  | ProgressNotify Event
  | StreamSend DeploySpecificationResponse "error option"
  | LogError string
  | Printf string
  | LogI nat

type_synonym trace = "call list"

record ProjectRepository =
  repo_GetByName :: "string \<Rightarrow> trace \<Rightarrow> error + ProjectSpec"

record ProjectRepoFactory =
  New :: ProjectRepository

record ProtoAdapter =
  FromJobProto :: "JobSpecification \<Rightarrow> trace \<Rightarrow> error + JobSpec"
  ToJobProto :: "JobSpec \<Rightarrow> trace \<Rightarrow> error + JobSpecification"
  ToProjectProto :: "ProjectSpec \<Rightarrow> ProjectSpecification"

text \<open>
  \<open>Sync\<close> answers with the upload events it emits, in order, and with its own error.
\<close>

record JobService =
  Create :: "JobSpec \<Rightarrow> ProjectSpec \<Rightarrow> trace \<Rightarrow> error option"
  Sync :: "ProjectSpec \<Rightarrow> trace \<Rightarrow> Event list \<times> error option"
  job_GetByName :: "string \<Rightarrow> ProjectSpec \<Rightarrow> trace \<Rightarrow> error + JobSpec"

record DeploySpecificationServer =
  Send :: "DeploySpecificationResponse \<Rightarrow> trace \<Rightarrow> error option"

datatype FieldLogger = FieldLogger

text \<open>
  \<open>progressObserver\<close> is the server's own observer, an interface value from outside:
  the field says whether its \<open>Notify\<close> returns or panics.
\<close>

record runtimeServiceServer =
  version :: string
  jobSvc :: JobService
  adapter :: ProtoAdapter
  projectRepoFactory :: ProjectRepoFactory
  progressObserver :: "Event \<Rightarrow> trace \<Rightarrow> unit result"

text \<open>
  \<open>jobSyncObserver\<close>: \<open>log\<close> is an interface field, \<open>nil\<close> (\<open>None\<close>) unless set.
\<close>

record jobSyncObserver =
  stream :: DeploySpecificationServer
  log :: "FieldLogger option"

section \<open>runtime.go\<close>

text \<open>
  \<open>Version\<close> (lines 40 to 46): \<open>fmt.Printf\<close> writes the line to standard output and
  returns the number of bytes written, which \<open>log.I\<close> receives. The request is the
  message gRPC decoded, never \<open>nil\<close>.
\<close>

definition Version ::
  "runtimeServiceServer \<Rightarrow> VersionRequest \<Rightarrow> trace \<Rightarrow> (status + VersionResponse) \<times> trace" where
  "Version sv req t =
     (let line = ''client with version '' @ Client req @ '' requested for ping '';
          t1 = t @ [Printf line, LogI (length line)];
          response = \<lparr>Server = version sv\<rparr>
      in (Inr response, t1))"

text \<open>\<open>errors.Wrapf(err, format, args...)\<close> of \<open>github.com/pkg/errors\<close>.\<close>

definition Wrapf :: "error \<Rightarrow> string \<Rightarrow> error" where
  "Wrapf err msg = GoError (kind err) (msg @ '': '' @ Error err)"

text \<open>\<open>jobSyncObserver.Notify\<close> (runtime.go, lines 132 to 148).\<close>

definition Notify :: "jobSyncObserver \<Rightarrow> Event \<Rightarrow> trace \<Rightarrow> unit result \<times> trace" where
  "Notify obs e t =
     (case e of
        EventJobUpload evtJob evtErr \<Rightarrow>
          (let resp0 = \<lparr>Succcess = True, JobName = job_Name evtJob, Message = ''''\<rparr>;
               resp = (case evtErr of
                         None \<Rightarrow> resp0
                       | Some er \<Rightarrow> resp0\<lparr>Succcess := False, Message := Error er\<rparr>);
               sent = Send (stream obs) resp t;
               t1 = t @ [StreamSend resp sent]
           in (case sent of
                 None \<Rightarrow> (Return (), t1)
               | Some err \<Rightarrow>
                   (case log obs of
                      None \<Rightarrow> (Panic nil_dereference, t1)
                    | Some lg \<Rightarrow>
                        (Return (),
                         t1 @ [LogError (Error (Wrapf err
                                 (''failed to send deploy spec ack for: '' @ job_Name evtJob)))]))))
      | EventOther x \<Rightarrow> (Return (), t))"

text \<open>
  Modelled from the spec: \<open>progress.ObserverChain\<close> (package \<open>core/progress\<close> is
  not among the sources). Section 9: "an explicit list of listeners invoked
  synchronously per event"; the glossary: "ordered set of listeners". \<open>Join\<close> appends
  a listener; \<open>Notify\<close> calls each listener in the order joined. A panic in a
  listener unwinds through the chain.
\<close>

datatype Observer = ServerObserver "Event \<Rightarrow> trace \<Rightarrow> unit result" | RelayObserver jobSyncObserver

type_synonym ObserverChain = "Observer list"

definition Join :: "ObserverChain \<Rightarrow> Observer \<Rightarrow> ObserverChain" where
  "Join chain obs = chain @ [obs]"

fun observer_Notify :: "Observer \<Rightarrow> Event \<Rightarrow> trace \<Rightarrow> unit result \<times> trace" where
  "observer_Notify (ServerObserver f) e t = (f e t, t @ [ProgressNotify e])"
| "observer_Notify (RelayObserver obs) e t = Notify obs e t"

fun chain_Notify :: "ObserverChain \<Rightarrow> Event \<Rightarrow> trace \<Rightarrow> unit result \<times> trace" where
  "chain_Notify [] e t = (Return (), t)"
| "chain_Notify (obs # rest) e t =
     (case observer_Notify obs e t of
        (Return u, t1) \<Rightarrow> chain_Notify rest e t1
      | (Panic m, t1) \<Rightarrow> (Panic m, t1))"

text \<open>
  Modelled from the spec: the body of \<open>jobSvc.Sync\<close> (package \<open>job\<close> is not among
  the sources). Section 4.4, step 3: it "emits one upload event per job as it
  completes"; each event goes to the observer chain before the next one is emitted.
  A panic in an observer ends the run.
\<close>

fun emit :: "ObserverChain \<Rightarrow> Event list \<Rightarrow> trace \<Rightarrow> unit result \<times> trace" where
  "emit observers [] t = (Return (), t)"
| "emit observers (e # es) t =
     (case chain_Notify observers e t of
        (Return u, t1) \<Rightarrow> emit observers es t1
      | (Panic m, t1) \<Rightarrow> (Panic m, t1))"

text \<open>
  The loop of \<open>DeploySpecification\<close> over \<open>req.GetJobs()\<close> (lines 55 to 65): the
  first failure returns from the handler.
\<close>

fun deployJobs ::
  "runtimeServiceServer \<Rightarrow> ProjectSpec \<Rightarrow> JobSpecification list \<Rightarrow> trace \<Rightarrow> status option \<times> trace" where
  "deployJobs sv projSpec [] t = (None, t)"
| "deployJobs sv projSpec (reqJob # rest) t =
     (let adapted = FromJobProto (adapter sv) reqJob t;
          t1 = t @ [AdapterFromJobProto reqJob adapted]
      in (case adapted of
            Inl err \<Rightarrow> (Some (Status Internal (Error err)), t1)
          | Inr adaptJob \<Rightarrow>
              (let created = Create (jobSvc sv) adaptJob projSpec t1;
                   t2 = t1 @ [JobCreate adaptJob projSpec created]
               in (case created of
                     Some err \<Rightarrow> (Some (Status Internal (Error err)), t2)
                   | None \<Rightarrow> deployJobs sv projSpec rest t2))))"

text \<open>
  \<open>DeploySpecification\<close> (lines 48 to 78). The relay observer is built with its
  \<open>stream\<close> only: its \<open>log\<close> field keeps the zero value.
\<close>

definition DeploySpecification ::
  "runtimeServiceServer \<Rightarrow> DeploySpecificationRequest \<Rightarrow> DeploySpecificationServer \<Rightarrow> trace
     \<Rightarrow> status option result \<times> trace" where
  "DeploySpecification sv req respStream t =
     (let projectRepo = New (projectRepoFactory sv);
          found = repo_GetByName projectRepo (deploy_ProjectName req) t;
          t1 = t @ [RepoGetByName (deploy_ProjectName req) found]
      in (case found of
            Inl err \<Rightarrow> (Return (Some (Status Internal (Error err))), t1)
          | Inr projSpec \<Rightarrow>
              (case deployJobs sv projSpec (deploy_Jobs req) t1 of
                 (Some st, t2) \<Rightarrow> (Return (Some st), t2)
               | (None, t2) \<Rightarrow>
                   (let observers = Join (Join [] (ServerObserver (progressObserver sv)))
                                      (RelayObserver \<lparr>stream = respStream, log = None\<rparr>);
                        t3 = t2 @ [JobSync projSpec]
                    in (case Sync (jobSvc sv) projSpec t2 of
                          (events, synced) \<Rightarrow>
                            (case emit observers events t3 of
                               (Panic m, t4) \<Rightarrow> (Panic m, t4)
                             | (Return u, t4) \<Rightarrow>
                                 (case synced of
                                    Some err \<Rightarrow> (Return (Some (Status Internal (Error err))), t4)
                                  | None \<Rightarrow> (Return None, t4))))))))"

text \<open>\<open>GetJob\<close> (lines 92 to 113).\<close>

definition GetJob ::
  "runtimeServiceServer \<Rightarrow> GetJobRequest \<Rightarrow> trace \<Rightarrow> (status + GetJobResponse) \<times> trace" where
  "GetJob sv req t =
     (let projectRepo = New (projectRepoFactory sv);
          found = repo_GetByName projectRepo (getjob_ProjectName req) t;
          t1 = t @ [RepoGetByName (getjob_ProjectName req) found]
      in (case found of
            Inl err \<Rightarrow> (Inl (Status Internal (Error err)), t1)
          | Inr projSpec \<Rightarrow>
              (let got = job_GetByName (jobSvc sv) (getjob_JobName req) projSpec t1;
                   t2 = t1 @ [JobGetByName (getjob_JobName req) projSpec got]
               in (case got of
                     Inl err \<Rightarrow> (Inl (Status Internal (Error err)), t2)
                   | Inr jobSpec \<Rightarrow>
                       (let conv = ToJobProto (adapter sv) jobSpec t2;
                            t3 = t2 @ [AdapterToJobProto jobSpec conv]
                        in (case conv of
                              Inl err \<Rightarrow> (Inl (Status Internal (Error err)), t3)
                            | Inr jobProto \<Rightarrow>
                                (Inr \<lparr>resp_Project = ToProjectProto (adapter sv) projSpec,
                                      resp_Job = jobProto\<rparr>,
                                 t3 @ [AdapterToProjectProto projSpec])))))))"

text \<open>The code of a handler's terminal status, when it ended with one.\<close>

fun terminal_code :: "status + 'a \<Rightarrow> codes option" where
  "terminal_code (Inl st) = Some (code st)"
| "terminal_code (Inr r) = None"

section \<open>Reading a trace\<close>

text \<open>The events a handler added to the trace it started from.\<close>

definition added :: "trace \<Rightarrow> trace \<Rightarrow> trace" where
  "added t0 t = drop (length t0) t"

text \<open>
  A failed step of request setup: a project lookup, an adaptation or a \<open>Create\<close> that
  returned an error; \<open>failure_text\<close> is that error's text.
\<close>

fun setup_failed :: "call \<Rightarrow> bool" where
  "setup_failed (RepoGetByName n (Inl err)) = True"
| "setup_failed (AdapterFromJobProto jb (Inl err)) = True"
| "setup_failed (JobCreate js p (Some err)) = True"
| "setup_failed c = False"

fun failure_text :: "call \<Rightarrow> string" where
  "failure_text (RepoGetByName n (Inl err)) = Error err"
| "failure_text (AdapterFromJobProto jb (Inl err)) = Error err"
| "failure_text (JobCreate js p (Some err)) = Error err"
| "failure_text c = ''''"

fun is_Sync :: "call \<Rightarrow> bool" where
  "is_Sync (JobSync p) = True"
| "is_Sync c = False"

fun is_Send :: "call \<Rightarrow> bool" where
  "is_Send (StreamSend r s) = True"
| "is_Send c = False"

fun is_JobGetByName :: "call \<Rightarrow> bool" where
  "is_JobGetByName (JobGetByName n p r) = True"
| "is_JobGetByName c = False"

text \<open>The wire jobs handed to the adapter, and the jobs handed to \<open>Create\<close>, in order.\<close>

fun adapted_jobs :: "trace \<Rightarrow> JobSpecification list" where
  "adapted_jobs [] = []"
| "adapted_jobs (AdapterFromJobProto jb r # t) = jb # adapted_jobs t"
| "adapted_jobs (c # t) = adapted_jobs t"

fun created_jobs :: "trace \<Rightarrow> JobSpec list" where
  "created_jobs [] = []"
| "created_jobs (JobCreate js p r # t) = js # created_jobs t"
| "created_jobs (c # t) = created_jobs t"

text \<open>The acknowledgment messages written to the response stream, in order.\<close>

fun acks :: "trace \<Rightarrow> DeploySpecificationResponse list" where
  "acks [] = []"
| "acks (StreamSend r s # t) = r # acks t"
| "acks (c # t) = acks t"

text \<open>
  An event records what the collaborator answers: the result written with a project
  lookup, an adaptation or a \<open>Create\<close> is the collaborator's answer to those arguments
  on the trace before the call. A trace is faithful when each of its events is.
\<close>

fun answered :: "runtimeServiceServer \<Rightarrow> trace \<Rightarrow> call \<Rightarrow> bool" where
  "answered sv before (RepoGetByName n r) =
     (r = repo_GetByName (New (projectRepoFactory sv)) n before)"
| "answered sv before (AdapterFromJobProto jb r) = (r = FromJobProto (adapter sv) jb before)"
| "answered sv before (JobCreate js p r) = (r = Create (jobSvc sv) js p before)"
| "answered sv before c = True"

text \<open>\<open>faithful sv before new\<close>: the events \<open>new\<close>, written after \<open>before\<close>.\<close>

fun faithful :: "runtimeServiceServer \<Rightarrow> trace \<Rightarrow> trace \<Rightarrow> bool" where
  "faithful sv before [] = True"
| "faithful sv before (c # rest) = (answered sv before c \<and> faithful sv (before @ [c]) rest)"

text \<open>
  The jobs the adapter produced, and the projects handed to \<open>Create\<close> and to \<open>Sync\<close>,
  in order.
\<close>

fun adapted_ok :: "trace \<Rightarrow> JobSpec list" where
  "adapted_ok [] = []"
| "adapted_ok (AdapterFromJobProto jb (Inr js) # t) = js # adapted_ok t"
| "adapted_ok (c # t) = adapted_ok t"

fun projects_used :: "trace \<Rightarrow> ProjectSpec list" where
  "projects_used [] = []"
| "projects_used (JobCreate js p r # t) = p # projects_used t"
| "projects_used (JobSync p # t) = p # projects_used t"
| "projects_used (c # t) = projects_used t"

section \<open>The metadata adapter (package meta)\<close>

text \<open>
  The records of the catalog (section 3 of the specification, and the expected value
  of \<open>TestJobAdapter\<close>).
\<close>

record JobTaskMetadata =
  taskmd_Name :: string
  taskmd_Image :: string
  taskmd_Description :: string
  taskmd_Destination :: string
  taskmd_Config :: "JobSpecConfigItem list"
  taskmd_Window :: JobSpecTaskWindow
  taskmd_Priority :: int

record JobDependencyMetadata =
  depmd_Tenant :: string
  depmd_Job :: string
  depmd_Type :: string

record JobHookMetadata =
  hookmd_Name :: string
  hookmd_Image :: string
  hookmd_Description :: string
  hookmd_Config :: "JobSpecConfigItem list"
  hookmd_Type :: HookType
  hookmd_DependsOn :: "string list"

record JobMetadata =
  md_Urn :: string
  md_Name :: string
  md_Tenant :: string
  md_Version :: int
  md_Description :: string
  md_Labels :: "JobSpecLabelItem list"
  md_Owner :: string
  md_Task :: JobTaskMetadata
  md_Schedule :: JobSpecSchedule
  md_Behavior :: JobSpecBehavior
  md_Dependencies :: "JobDependencyMetadata list"
  md_Hooks :: "JobHookMetadata list"

text \<open>
  Modelled from the spec: \<open>Assets.ToMap()\<close> (package \<open>models\<close> is not among the
  sources). Section 3: the assets are "exposed to the Execution Unit as a mapping"
  from name to value; a later asset of the same name replaces an earlier one.
\<close>

fun ToMap :: "JobSpecAsset list \<Rightarrow> (string \<rightharpoonup> string)" where
  "ToMap [] = Map.empty"
| "ToMap (a # as) = [asset_Name a \<mapsto> asset_Value a] ++ ToMap as"

text \<open>
  Modelled from the spec: \<open>JobAdapter.FromJobSpec\<close> and its loops (package \<open>meta\<close> is
  not among the sources; only its test is). Section 4.3, steps 1 to 6.

  Step 3: "Flatten \<open>Task.Config\<close> into ordered name/value pairs, preserving source
  order (no implicit sorting)".
\<close>

fun flattenConfig :: "JobSpecConfigs \<Rightarrow> JobSpecConfigItem list" where
  "flattenConfig [] = []"
| "flattenConfig (c # cs) =
     \<lparr>config_Name = config_Name c, config_Value = config_Value c\<rparr> # flattenConfig cs"

text \<open>
  Modelled from the spec: step 4. "\<open>Tenant = dep.Project.Name\<close> if present else the
  current project's name; \<open>Job = dep.Job.Name\<close>; \<open>Type = dep.Type.String()\<close>. Failure
  if a referenced dependency has neither a resolvable job name nor project: signals
  \<open>InvalidDependencyError\<close>." A job name resolves when it is not empty.
\<close>

definition flattenDependency :: "ProjectSpec \<Rightarrow> JobSpecDependency \<Rightarrow> error + JobDependencyMetadata" where
  "flattenDependency project dep =
     (if dep_JobName dep = '''' \<and> dep_Project dep = None
      then Inl (GoError InvalidDependencyError ''invalid dependency'')
      else Inr \<lparr>depmd_Tenant = (case dep_Project dep of
                                   Some depProject \<Rightarrow> project_Name depProject
                                 | None \<Rightarrow> project_Name project),
                depmd_Job = dep_JobName dep,
                depmd_Type = String (dep_Type dep)\<rparr>)"

fun flattenDependencies ::
  "ProjectSpec \<Rightarrow> (string \<times> JobSpecDependency) list \<Rightarrow> error + JobDependencyMetadata list" where
  "flattenDependencies project [] = Inr []"
| "flattenDependencies project ((name, dep) # rest) =
     (case flattenDependency project dep of
        Inl err \<Rightarrow> Inl err
      | Inr d \<Rightarrow>
          (case flattenDependencies project rest of
             Inl err \<Rightarrow> Inl err
           | Inr ds \<Rightarrow> Inr (d # ds)))"

text \<open>
  Modelled from the spec: step 5. "For each hook: flatten using the Hook Unit
  capability exactly as for the task (name/image/description/config), plus \<open>Type\<close> and
  \<open>DependsOn\<close> verbatim. Hook ordering in the output list is insertion order of
  \<open>Hooks\<close>."
\<close>

definition flattenHook :: "JobSpecHook \<Rightarrow> JobHookMetadata" where
  "flattenHook hook =
     \<lparr>hookmd_Name = hook_GetName (hookspec_Unit hook),
      hookmd_Image = hook_GetImage (hookspec_Unit hook),
      hookmd_Description = hook_GetDescription (hookspec_Unit hook),
      hookmd_Config = flattenConfig (hookspec_Config hook),
      hookmd_Type = hook_GetType (hookspec_Unit hook),
      hookmd_DependsOn = hook_GetDependsOn (hookspec_Unit hook)\<rparr>"

fun flattenHooks :: "JobSpecHook list \<Rightarrow> JobHookMetadata list" where
  "flattenHooks [] = []"
| "flattenHooks (hook # hooks) = flattenHook hook # flattenHooks hooks"

text \<open>
  Modelled from the spec: \<open>FromJobSpec\<close>. Step 1 computes the Urn, step 2 calls
  \<open>GenerateDestination\<close> "with the task's config and the asset map" and propagates its
  failure, step 6: "no partial result is ever returned alongside an error". The job
  model of section 3 has no description; the test expects the empty string.
\<close>

definition FromJobSpec :: "ProjectSpec \<Rightarrow> JobSpec \<Rightarrow> error + JobMetadata" where
  "FromJobSpec project job =
     (let urn = project_Name project @ ''::job/'' @ job_Name job;
          task = job_Task job
      in (case GenerateDestination (task_Unit task)
                 \<lparr>unitdata_Config = task_Config task, unitdata_Assets = ToMap (job_Assets job)\<rparr> of
            Inl err \<Rightarrow> Inl err
          | Inr destination \<Rightarrow>
              (case flattenDependencies project (job_Dependencies job) of
                 Inl err \<Rightarrow> Inl err
               | Inr dependencies \<Rightarrow>
                   Inr \<lparr>md_Urn = urn,
                        md_Name = job_Name job,
                        md_Tenant = project_Name project,
                        md_Version = job_Version job,
                        md_Description = '''',
                        md_Labels = job_Labels job,
                        md_Owner = job_Owner job,
                        md_Task = \<lparr>taskmd_Name = GetName (task_Unit task),
                                   taskmd_Image = GetImage (task_Unit task),
                                   taskmd_Description = GetDescription (task_Unit task),
                                   taskmd_Destination = destination,
                                   taskmd_Config = flattenConfig (task_Config task),
                                   taskmd_Window = task_Window task,
                                   taskmd_Priority = task_Priority task\<rparr>,
                        md_Schedule = job_Schedule job,
                        md_Behavior = job_Behavior job,
                        md_Dependencies = dependencies,
                        md_Hooks = flattenHooks (job_Hooks job)\<rparr>)))"

section \<open>The values of TestJobAdapter\<close>

definition projectSpec :: ProjectSpec where
  "projectSpec = \<lparr>project_Name = ''humara-projectSpec'',
                   project_Config = [(''bucket'', ''gs://some_folder'')]\<rparr>"

text \<open>
  The mocks: \<open>GenerateDestination\<close> answers \<open>"destination_table"\<close> on the unit data of
  the job under test.
\<close>

definition execUnit :: ExecutionUnit where
  "execUnit = \<lparr>GetName = ''bq2bq'', GetImage = ''image'', GetDescription = ''description'',
                GenerateDestination = (\<lambda>d. Inr ''destination_table'')\<rparr>"

definition hookUnit :: HookUnit where
  "hookUnit = \<lparr>hook_GetName = ''transporter'', hook_GetImage = ''h_image'',
                hook_GetDescription = ''h_description'', hook_GetType = HookTypePost,
                hook_GetDependsOn = [''some_value'']\<rparr>"

definition jobSpec1 :: JobSpec where
  "jobSpec1 =
     \<lparr>job_Name = ''job-1'',
      job_Owner = ''mee@mee'',
      job_Version = 100,
      job_Labels = [\<lparr>label_Name = ''l1'', label_Value = ''lv1''\<rparr>],
      job_Behavior = \<lparr>CatchUp = True, DependsOnPast = False\<rparr>,
      job_Schedule = \<lparr>StartDate = 973900800, Interval = ''* * * * *''\<rparr>,
      job_Task = \<lparr>task_Unit = execUnit,
                  task_Config = [\<lparr>config_Name = ''do'', config_Value = ''this''\<rparr>],
                  task_Priority = 2000,
                  task_Window = \<lparr>Size = 3600000000000, Offset = 0, TruncateTo = ''d''\<rparr>\<rparr>,
      job_Assets = [\<lparr>asset_Name = ''query.sql'', asset_Value = ''select * from 1''\<rparr>],
      job_Dependencies =
        [(''job-2'', \<lparr>dep_Project = Some \<lparr>project_Name = ''some_other_project'', project_Config = []\<rparr>,
                     dep_JobName = ''job-2'',
                     dep_Type = JobSpecDependencyTypeInter\<rparr>)],
      job_Hooks =
        [\<lparr>hookspec_Config =
            [\<lparr>config_Name = ''SAMPLE_CONFIG'', config_Value = ''200''\<rparr>,
             \<lparr>config_Name = ''PRODUCER_CONFIG_BOOTSTRAP_SERVERS'',
              config_Value = ''{{.GLOBAL__transporterKafkaBroker}}''\<rparr>],
          hookspec_Unit = hookUnit\<rparr>]\<rparr>"

definition expectedResourceMetadata :: JobMetadata where
  "expectedResourceMetadata =
     \<lparr>md_Urn = ''humara-projectSpec::job/job-1'',
      md_Name = ''job-1'',
      md_Tenant = ''humara-projectSpec'',
      md_Version = 100,
      md_Description = '''',
      md_Labels = job_Labels jobSpec1,
      md_Owner = ''mee@mee'',
      md_Task = \<lparr>taskmd_Name = ''bq2bq'',
                 taskmd_Image = ''image'',
                 taskmd_Description = ''description'',
                 taskmd_Destination = ''destination_table'',
                 taskmd_Config = [\<lparr>config_Name = ''do'', config_Value = ''this''\<rparr>],
                 taskmd_Window = task_Window (job_Task jobSpec1),
                 taskmd_Priority = 2000\<rparr>,
      md_Schedule = job_Schedule jobSpec1,
      md_Behavior = job_Behavior jobSpec1,
      md_Dependencies = [\<lparr>depmd_Tenant = ''some_other_project'', depmd_Job = ''job-2'',
                          depmd_Type = String JobSpecDependencyTypeInter\<rparr>],
      md_Hooks = [\<lparr>hookmd_Name = ''transporter'',
                   hookmd_Image = ''h_image'',
                   hookmd_Description = ''h_description'',
                   hookmd_Config =
                     [\<lparr>config_Name = ''SAMPLE_CONFIG'', config_Value = ''200''\<rparr>,
                      \<lparr>config_Name = ''PRODUCER_CONFIG_BOOTSTRAP_SERVERS'',
                       config_Value = ''{{.GLOBAL__transporterKafkaBroker}}''\<rparr>],
                   hookmd_Type = HookTypePost,
                   hookmd_DependsOn = [''some_value'']\<rparr>]\<rparr>"

text \<open>The same job with one dependency inside its own project (\<open>Project\<close> is \<open>nil\<close>).\<close>

definition jobSpec1_intra :: JobSpec where
  "jobSpec1_intra =
     jobSpec1\<lparr>job_Dependencies :=
        [(''job-3'', \<lparr>dep_Project = None, dep_JobName = ''job-3'',
                     dep_Type = JobSpecDependencyTypeIntra\<rparr>)]\<rparr>"

section \<open>A server to run the handlers on\<close>

text \<open>
  Collaborators for concrete runs: a repository that knows one project, an adapter that
  knows the wire job \<open>job-1\<close>, a job service that stores every job and, on \<open>Sync\<close>,
  reports the upload of \<open>job-1\<close>.
\<close>

definition exampleRepo :: ProjectRepository where
  "exampleRepo =
     \<lparr>repo_GetByName = (\<lambda>name t. if name = ''humara-projectSpec'' then Inr projectSpec
                                  else Inl (GoError NotFoundError ''project not found''))\<rparr>"

definition exampleAdapter :: ProtoAdapter where
  "exampleAdapter =
     \<lparr>FromJobProto = (\<lambda>jb t. if jb = JobSpecification ''job-1'' then Inr jobSpec1
                              else Inl (GoError AdaptationError ''unknown task'')),
      ToJobProto = (\<lambda>js t. Inr (JobSpecification (job_Name js))),
      ToProjectProto = (\<lambda>p. ProjectSpecification (project_Name p))\<rparr>"

definition exampleJobService :: JobService where
  "exampleJobService =
     \<lparr>Create = (\<lambda>js p t. None),
      Sync = (\<lambda>p t. ([EventJobUpload jobSpec1 None], None)),
      job_GetByName = (\<lambda>name p t. if name = ''job-1'' then Inr jobSpec1
                                    else Inl (GoError NotFoundError ''job not found''))\<rparr>"

definition exampleServer :: runtimeServiceServer where
  "exampleServer =
     \<lparr>version = ''0.0.1'',
      jobSvc = exampleJobService,
      adapter = exampleAdapter,
      projectRepoFactory = \<lparr>New = exampleRepo\<rparr>,
      progressObserver = (\<lambda>e t. Return ())\<rparr>"

text \<open>The same server over a job store that cannot be reached.\<close>

definition unreachableServer :: runtimeServiceServer where
  "unreachableServer =
     exampleServer\<lparr>jobSvc :=
        exampleJobService\<lparr>job_GetByName :=
          (\<lambda>name p t. Inl (GoError PersistenceError ''connection refused''))\<rparr>\<rparr>"

text \<open>The same server over a job store that cannot write.\<close>

definition fullDiskServer :: runtimeServiceServer where
  "fullDiskServer =
     exampleServer\<lparr>jobSvc :=
        exampleJobService\<lparr>Create :=
          (\<lambda>js p t. Some (GoError PersistenceError ''disk full''))\<rparr>\<rparr>"

text \<open>A response stream whose caller listens, and one whose caller has gone.\<close>

definition streamUp :: DeploySpecificationServer where
  "streamUp = \<lparr>Send = (\<lambda>resp t. None)\<rparr>"

definition streamDown :: DeploySpecificationServer where
  "streamDown = \<lparr>Send = (\<lambda>resp t. Some (GoError TransportError ''transport is closing''))\<rparr>"

text \<open>
  A batch whose second job cannot be adapted, and a batch of the one job the adapter
  knows.
\<close>

definition failingRequest :: DeploySpecificationRequest where
  "failingRequest =
     \<lparr>deploy_ProjectName = ''humara-projectSpec'',
      deploy_Jobs = [JobSpecification ''job-1'', JobSpecification ''job-x'',
                     JobSpecification ''job-1'']\<rparr>"

definition goodRequest :: DeploySpecificationRequest where
  "goodRequest =
     \<lparr>deploy_ProjectName = ''humara-projectSpec'',
      deploy_Jobs = [JobSpecification ''job-1'']\<rparr>"

definition unknownProjectRequest :: GetJobRequest where
  "unknownProjectRequest = \<lparr>getjob_ProjectName = ''nowhere'', getjob_JobName = ''job-1''\<rparr>"

definition knownJobRequest :: GetJobRequest where
  "knownJobRequest = \<lparr>getjob_ProjectName = ''humara-projectSpec'', getjob_JobName = ''job-1''\<rparr>"

section \<open>Kinds of trace events\<close>

text \<open>
  What the observers write during \<open>Sync\<close>, and what the loop over the batch writes.
\<close>

fun relay_event :: "call \<Rightarrow> bool" where
  "relay_event (ProgressNotify e) = True"
| "relay_event (StreamSend r s) = True"
| "relay_event (LogError m) = True"
| "relay_event c = False"

fun setup_event :: "call \<Rightarrow> bool" where
  "setup_event (AdapterFromJobProto jb r) = True"
| "setup_event (JobCreate js p r) = True"
| "setup_event c = False"

text \<open>
  The trace of the loop over a batch: adapter and \<open>Create\<close> calls only, for a prefix of
  the batch; all of it without a failure when the loop ends normally, and a failure as
  its last event when the loop returns a status.
\<close>

definition loop_ok :: "JobSpecification list \<Rightarrow> status option \<Rightarrow> trace \<Rightarrow> bool" where
  "loop_ok jobs r new \<longleftrightarrow>
     (\<forall>c\<in>set new. setup_event c) \<and>
     prefix (adapted_jobs new) jobs \<and>
     length (created_jobs new) \<le> length (adapted_jobs new) \<and>
     (case r of
        None \<Rightarrow> (\<forall>c\<in>set new. \<not> setup_failed c) \<and> adapted_jobs new = jobs \<and>
                 length (created_jobs new) = length jobs
      | Some st \<Rightarrow> new \<noteq> [] \<and> setup_failed (last new) \<and>
                   st = Status Internal (failure_text (last new)) \<and>
                   (\<forall>c\<in>set (butlast new). \<not> setup_failed c))"

text \<open>
  The loop's trace is tied to the collaborators: it is faithful, \<open>Create\<close> received
  exactly the jobs the adapter produced, and always under the project \<open>p\<close>.
\<close>

definition tied :: "runtimeServiceServer \<Rightarrow> ProjectSpec \<Rightarrow> trace \<Rightarrow> trace \<Rightarrow> bool" where
  "tied sv p before new \<longleftrightarrow>
     faithful sv before new \<and> created_jobs new = adapted_ok new \<and>
     (\<forall>q\<in>set (projects_used new). q = p)"

section \<open>DeploySpecification: properties\<close>

lemma adapted_jobs_append: "adapted_jobs (xs @ ys) = adapted_jobs xs @ adapted_jobs ys"
  by (induction xs rule: adapted_jobs.induct) simp_all

lemma created_jobs_append: "created_jobs (xs @ ys) = created_jobs xs @ created_jobs ys"
  by (induction xs rule: created_jobs.induct) simp_all

lemma relay_event_facts:
  "relay_event c \<Longrightarrow> \<not> setup_failed c \<and> \<not> is_Sync c \<and> \<not> setup_event c"
  by (cases c) simp_all

lemma setup_event_facts:
  "setup_event c \<Longrightarrow> \<not> is_Sync c \<and> \<not> is_Send c"
  by (cases c) simp_all

lemma relay_events_adapted: "\<forall>c\<in>set xs. relay_event c \<Longrightarrow> adapted_jobs xs = [] \<and> created_jobs xs = []"
proof (induction xs)
  case Nil
  then show ?case by simp
next
  case (Cons c xs)
  then show ?case by (cases c) simp_all
qed

lemma faithful_append:
  "faithful sv t (xs @ ys) \<longleftrightarrow> faithful sv t xs \<and> faithful sv (t @ xs) ys"
  by (induction xs arbitrary: t) simp_all

lemma faithful_nth:
  "faithful sv t n \<Longrightarrow> i < length n \<Longrightarrow> answered sv (t @ take i n) (n ! i)"
proof (induction n arbitrary: t i)
  case Nil
  then show ?case by simp
next
  case (Cons c n)
  show ?case
  proof (cases i)
    case 0
    then show ?thesis using Cons.prems by simp
  next
    case (Suc k)
    then have "answered sv ((t @ [c]) @ take k n) (n ! k)"
      using Cons.IH[of "t @ [c]" k] Cons.prems by simp
    then show ?thesis using Suc by simp
  qed
qed

lemma adapted_ok_append: "adapted_ok (xs @ ys) = adapted_ok xs @ adapted_ok ys"
  by (induction xs rule: adapted_ok.induct) simp_all

lemma projects_used_append: "projects_used (xs @ ys) = projects_used xs @ projects_used ys"
  by (induction xs rule: projects_used.induct) simp_all

lemma relay_events_tied:
  "\<forall>c\<in>set m. relay_event c \<Longrightarrow> faithful sv t m \<and> adapted_ok m = [] \<and> projects_used m = []"
proof (induction m arbitrary: t)
  case Nil
  then show ?case by simp
next
  case (Cons c m)
  then show ?case by (cases c) simp_all
qed

lemma Notify_added:
  "\<exists>new. snd (Notify obs e t) = t @ new \<and> (\<forall>c\<in>set new. relay_event c)"
  by (cases e) (auto simp: Notify_def Let_def split: option.splits)

lemma observer_Notify_added:
  "\<exists>new. snd (observer_Notify ob e t) = t @ new \<and> (\<forall>c\<in>set new. relay_event c)"
  by (cases ob) (simp_all add: Notify_added)

lemma chain_Notify_added:
  "\<exists>new. snd (chain_Notify obs e t) = t @ new \<and> (\<forall>c\<in>set new. relay_event c)"
proof (induction obs arbitrary: t)
  case Nil
  then show ?case by simp
next
  case (Cons ob obs)
  obtain r t1 where o: "observer_Notify ob e t = (r, t1)" by (cases "observer_Notify ob e t")
  from observer_Notify_added[of ob e t] o obtain n1 where
    n1: "t1 = t @ n1" "\<forall>c\<in>set n1. relay_event c" by auto
  show ?case
  proof (cases r)
    case (Return u)
    from Cons.IH[of t1] obtain n2 where
      n2: "snd (chain_Notify obs e t1) = t1 @ n2" "\<forall>c\<in>set n2. relay_event c" by auto
    have "snd (chain_Notify (ob # obs) e t) = t @ (n1 @ n2)"
      using o Return n1 n2 by simp
    moreover have "\<forall>c\<in>set (n1 @ n2). relay_event c" using n1 n2 by auto
    ultimately show ?thesis by blast
  next
    case (Panic m)
    then show ?thesis using o n1 by auto
  qed
qed

lemma emit_added:
  "\<exists>new. snd (emit obs es t) = t @ new \<and> (\<forall>c\<in>set new. relay_event c)"
proof (induction es arbitrary: t)
  case Nil
  then show ?case by simp
next
  case (Cons e es)
  obtain r t1 where o: "chain_Notify obs e t = (r, t1)" by (cases "chain_Notify obs e t")
  from chain_Notify_added[of obs e t] o obtain n1 where
    n1: "t1 = t @ n1" "\<forall>c\<in>set n1. relay_event c" by auto
  show ?case
  proof (cases r)
    case (Return u)
    from Cons.IH[of t1] obtain n2 where
      n2: "snd (emit obs es t1) = t1 @ n2" "\<forall>c\<in>set n2. relay_event c" by auto
    have "snd (emit obs (e # es) t) = t @ (n1 @ n2)"
      using o Return n1 n2 by simp
    moreover have "\<forall>c\<in>set (n1 @ n2). relay_event c" using n1 n2 by auto
    ultimately show ?thesis by blast
  next
    case (Panic m)
    then show ?thesis using o n1 by auto
  qed
qed

lemma deployJobs_added:
  "\<exists>new. snd (deployJobs sv p jobs t) = t @ new \<and> loop_ok jobs (fst (deployJobs sv p jobs t)) new"
proof (induction jobs arbitrary: t)
  case Nil
  then show ?case by (simp add: loop_ok_def)
next
  case (Cons jb jobs)
  let ?a = "FromJobProto (adapter sv) jb t"
  let ?t1 = "t @ [AdapterFromJobProto jb ?a]"
  show ?case
  proof (cases ?a)
    case (Inl err)
    then have "deployJobs sv p (jb # jobs) t = (Some (Status Internal (Error err)), ?t1)"
      by simp
    moreover have "loop_ok (jb # jobs) (Some (Status Internal (Error err))) [AdapterFromJobProto jb ?a]"
      using Inl by (simp add: loop_ok_def)
    ultimately show ?thesis by (metis fst_conv snd_conv)
  next
    case (Inr js)
    let ?c = "Create (jobSvc sv) js p ?t1"
    let ?t2 = "?t1 @ [JobCreate js p ?c]"
    show ?thesis
    proof (cases ?c)
      case (Some err)
      then have "deployJobs sv p (jb # jobs) t = (Some (Status Internal (Error err)), ?t2)"
        using Inr by (simp add: Let_def)
      moreover have "loop_ok (jb # jobs) (Some (Status Internal (Error err)))
                       [AdapterFromJobProto jb ?a, JobCreate js p ?c]"
        using Inr Some by (simp add: loop_ok_def)
      ultimately show ?thesis by (metis append.assoc append_Cons append_Nil fst_conv snd_conv)
    next
      case None
      then have eq: "deployJobs sv p (jb # jobs) t = deployJobs sv p jobs ?t2"
        using Inr by (simp add: Let_def)
      from Cons.IH[of ?t2] obtain n where
        n: "snd (deployJobs sv p jobs ?t2) = ?t2 @ n"
           "loop_ok jobs (fst (deployJobs sv p jobs ?t2)) n" by blast
      let ?new = "[AdapterFromJobProto jb ?a, JobCreate js p ?c] @ n"
      have 1: "snd (deployJobs sv p (jb # jobs) t) = t @ ?new" using eq n(1) by simp
      have 2: "loop_ok (jb # jobs) (fst (deployJobs sv p jobs ?t2)) ?new"
      proof (cases "fst (deployJobs sv p jobs ?t2)")
        case None
        then show ?thesis using n(2) Inr \<open>?c = None\<close> by (simp add: loop_ok_def)
      next
        case (Some st)
        then have ne: "n \<noteq> []" using n(2) by (simp add: loop_ok_def)
        then have bl: "butlast ?new = [AdapterFromJobProto jb ?a, JobCreate js p ?c] @ butlast n"
          by (simp add: butlast_append)
        show ?thesis using n(2) Inr \<open>?c = None\<close> Some ne
          by (auto simp: loop_ok_def butlast_append)
      qed
      show ?thesis using 1 2 eq by metis
    qed
  qed
qed

lemma deployJobs_tied:
  "\<exists>new. snd (deployJobs sv p jobs t) = t @ new \<and> tied sv p t new"
proof (induction jobs arbitrary: t)
  case Nil
  then show ?case by (simp add: tied_def)
next
  case (Cons jb jobs)
  let ?a = "FromJobProto (adapter sv) jb t"
  let ?A = "AdapterFromJobProto jb ?a"
  let ?t1 = "t @ [?A]"
  show ?case
  proof (cases ?a)
    case (Inl err)
    then have "snd (deployJobs sv p (jb # jobs) t) = t @ [?A]" by simp
    moreover have "tied sv p t [?A]" using Inl by (simp add: tied_def)
    ultimately show ?thesis by blast
  next
    case (Inr js)
    let ?c = "Create (jobSvc sv) js p ?t1"
    let ?C = "JobCreate js p ?c"
    let ?t2 = "?t1 @ [?C]"
    show ?thesis
    proof (cases ?c)
      case (Some err)
      then have "snd (deployJobs sv p (jb # jobs) t) = t @ [?A, ?C]"
        using Inr by (simp add: Let_def)
      moreover have "tied sv p t [?A, ?C]" using Inr by (simp add: tied_def)
      ultimately show ?thesis by blast
    next
      case None
      then have eq: "deployJobs sv p (jb # jobs) t = deployJobs sv p jobs ?t2"
        using Inr by (simp add: Let_def)
      from Cons.IH[of ?t2] obtain n where
        n: "snd (deployJobs sv p jobs ?t2) = ?t2 @ n" "tied sv p ?t2 n" by blast
      have 1: "snd (deployJobs sv p (jb # jobs) t) = t @ ([?A, ?C] @ n)" using eq n(1) by simp
      have 2: "tied sv p t ([?A, ?C] @ n)"
        using n(2) Inr by (simp add: tied_def)
      show ?thesis using 1 2 by blast
    qed
  qed
qed

lemma DeploySpecification_shape:
  assumes run: "DeploySpecification sv req respStream t0 = (out, t)"
  shows "(\<exists>err. repo_GetByName (New (projectRepoFactory sv)) (deploy_ProjectName req) t0 = Inl err \<and>
               t = t0 @ [RepoGetByName (deploy_ProjectName req) (Inl err)] \<and>
               out = Return (Some (Status Internal (Error err)))) \<or>
         (\<exists>p st n. repo_GetByName (New (projectRepoFactory sv)) (deploy_ProjectName req) t0 = Inr p \<and>
               t = t0 @ RepoGetByName (deploy_ProjectName req) (Inr p) # n \<and>
               loop_ok (deploy_Jobs req) (Some st) n \<and> out = Return (Some st)) \<or>
         (\<exists>p n m. repo_GetByName (New (projectRepoFactory sv)) (deploy_ProjectName req) t0 = Inr p \<and>
               t = t0 @ RepoGetByName (deploy_ProjectName req) (Inr p) # n @ JobSync p # m \<and>
               loop_ok (deploy_Jobs req) None n \<and> (\<forall>c\<in>set m. relay_event c))"
proof (cases "repo_GetByName (New (projectRepoFactory sv)) (deploy_ProjectName req) t0")
  case (Inl err)
  then show ?thesis using run
    by (auto simp: DeploySpecification_def Let_def)
next
  case (Inr p)
  let ?t1 = "t0 @ [RepoGetByName (deploy_ProjectName req) (Inr p)]"
  obtain r t2 where dj: "deployJobs sv p (deploy_Jobs req) ?t1 = (r, t2)"
    by (cases "deployJobs sv p (deploy_Jobs req) ?t1")
  from deployJobs_added[of sv p "deploy_Jobs req" ?t1] dj obtain n where
    n: "t2 = ?t1 @ n" "loop_ok (deploy_Jobs req) r n" by auto
  show ?thesis
  proof (cases r)
    case (Some st)
    then have "out = Return (Some st) \<and> t = t2" using run Inr dj
      by (auto simp: DeploySpecification_def Let_def)
    then show ?thesis using Inr n Some by auto
  next
    case None
    let ?obs = "Join (Join [] (ServerObserver (progressObserver sv)))
                  (RelayObserver \<lparr>stream = respStream, log = None\<rparr>)"
    obtain events synced where sy: "Sync (jobSvc sv) p t2 = (events, synced)"
      by (cases "Sync (jobSvc sv) p t2")
    obtain r4 t4 where em: "emit ?obs events (t2 @ [JobSync p]) = (r4, t4)"
      by (cases "emit ?obs events (t2 @ [JobSync p])")
    from emit_added[of ?obs events "t2 @ [JobSync p]"] em obtain m where
      m: "t4 = (t2 @ [JobSync p]) @ m" "\<forall>c\<in>set m. relay_event c" by auto
    have "t = t4" using run Inr dj None sy em
      by (cases r4; cases synced) (auto simp: DeploySpecification_def Let_def)
    then have "t = t0 @ RepoGetByName (deploy_ProjectName req) (Inr p) # n @ JobSync p # m"
      using m n by simp
    then show ?thesis using Inr n None m by blast
  qed
qed

lemma DeploySpecification_events:
  assumes run: "DeploySpecification sv req respStream t0 = (out, t)"
  shows "t = t0 @ added t0 t \<and>
     hd (added t0 t) = RepoGetByName (deploy_ProjectName req)
        (repo_GetByName (New (projectRepoFactory sv)) (deploy_ProjectName req) t0) \<and>
     prefix (adapted_jobs (added t0 t)) (deploy_Jobs req) \<and>
     length (created_jobs (added t0 t)) \<le> length (adapted_jobs (added t0 t)) \<and>
     ((\<exists>c\<in>set (added t0 t). setup_failed c) \<longrightarrow>
        setup_failed (last (added t0 t)) \<and>
        (\<forall>c\<in>set (butlast (added t0 t)). \<not> setup_failed c) \<and>
        out = Return (Some (Status Internal (failure_text (last (added t0 t))))) \<and>
        (\<forall>c\<in>set (added t0 t). \<not> is_Sync c \<and> \<not> is_Send c)) \<and>
     ((\<exists>c\<in>set (added t0 t). is_Sync c) \<longleftrightarrow> (\<forall>c\<in>set (added t0 t). \<not> setup_failed c)) \<and>
     ((\<exists>c\<in>set (added t0 t). is_Sync c) \<longrightarrow>
        adapted_jobs (added t0 t) = deploy_Jobs req \<and>
        length (created_jobs (added t0 t)) = length (deploy_Jobs req))"
proof -
  let ?found = "repo_GetByName (New (projectRepoFactory sv)) (deploy_ProjectName req) t0"
  from DeploySpecification_shape[OF run] consider
    (lookup) err where "?found = Inl err"
      "t = t0 @ [RepoGetByName (deploy_ProjectName req) (Inl err)]"
      "out = Return (Some (Status Internal (Error err)))"
  | (loop) p st n where "?found = Inr p"
      "t = t0 @ RepoGetByName (deploy_ProjectName req) (Inr p) # n"
      "loop_ok (deploy_Jobs req) (Some st) n" "out = Return (Some st)"
  | (sync) p n m where "?found = Inr p"
      "t = t0 @ RepoGetByName (deploy_ProjectName req) (Inr p) # n @ JobSync p # m"
      "loop_ok (deploy_Jobs req) None n" "\<forall>c\<in>set m. relay_event c"
    by blast
  then show ?thesis
  proof cases
    case lookup
    then show ?thesis by (simp add: added_def)
  next
    case loop
    have ne: "n \<noteq> []" using loop(3) by (simp add: loop_ok_def)
    have ev: "\<forall>c\<in>set n. \<not> is_Sync c \<and> \<not> is_Send c"
      using loop(3) setup_event_facts by (auto simp: loop_ok_def)
    show ?thesis using loop ne ev
      by (auto simp: loop_ok_def added_def)
  next
    case sync
    have m1: "\<forall>c\<in>set m. \<not> setup_failed c" using sync(4) relay_event_facts by blast
    have m2: "adapted_jobs m = [] \<and> created_jobs m = []" using relay_events_adapted[OF sync(4)] .
    have n1: "\<forall>c\<in>set n. \<not> setup_failed c" using sync(3) by (simp add: loop_ok_def)
    show ?thesis using sync m1 m2 n1
      by (auto simp: loop_ok_def added_def adapted_jobs_append created_jobs_append)
  qed
qed

lemma run_failing:
  "DeploySpecification exampleServer failingRequest streamUp [] =
     (Return (Some (Status Internal ''unknown task'')),
      [RepoGetByName ''humara-projectSpec'' (Inr projectSpec),
       AdapterFromJobProto (JobSpecification ''job-1'') (Inr jobSpec1),
       JobCreate jobSpec1 projectSpec None,
       AdapterFromJobProto (JobSpecification ''job-x'') (Inl (GoError AdaptationError ''unknown task''))])"
  by (simp add: DeploySpecification_def exampleServer_def failingRequest_def exampleRepo_def
        exampleAdapter_def exampleJobService_def Let_def)

lemma run_good_up:
  "DeploySpecification exampleServer goodRequest streamUp [] =
     (Return None,
      [RepoGetByName ''humara-projectSpec'' (Inr projectSpec),
       AdapterFromJobProto (JobSpecification ''job-1'') (Inr jobSpec1),
       JobCreate jobSpec1 projectSpec None,
       JobSync projectSpec,
       ProgressNotify (EventJobUpload jobSpec1 None),
       StreamSend \<lparr>Succcess = True, JobName = ''job-1'', Message = ''''\<rparr> None])"
  by (simp add: DeploySpecification_def exampleServer_def goodRequest_def exampleRepo_def
        exampleAdapter_def exampleJobService_def Let_def Join_def Notify_def streamUp_def
        jobSpec1_def)

lemma DeploySpecification_tied:
  assumes run: "DeploySpecification sv req respStream t0 = (out, t)"
  shows "faithful sv t0 (added t0 t) \<and>
         created_jobs (added t0 t) = adapted_ok (added t0 t) \<and>
         (\<forall>q\<in>set (projects_used (added t0 t)).
            repo_GetByName (New (projectRepoFactory sv)) (deploy_ProjectName req) t0 = Inr q)"
proof (cases "repo_GetByName (New (projectRepoFactory sv)) (deploy_ProjectName req) t0")
  case (Inl err)
  then have "t = t0 @ [RepoGetByName (deploy_ProjectName req) (Inl err)]" using run
    by (auto simp: DeploySpecification_def Let_def)
  then show ?thesis using Inl by (simp add: added_def)
next
  case (Inr p)
  let ?L = "RepoGetByName (deploy_ProjectName req) (Inr p)"
  let ?t1 = "t0 @ [?L]"
  obtain r t2 where dj: "deployJobs sv p (deploy_Jobs req) ?t1 = (r, t2)"
    by (cases "deployJobs sv p (deploy_Jobs req) ?t1")
  from deployJobs_tied[of sv p "deploy_Jobs req" ?t1] dj obtain n where
    n: "t2 = ?t1 @ n" "tied sv p ?t1 n" by auto
  have L: "answered sv t0 ?L" using Inr by simp
  show ?thesis
  proof (cases r)
    case (Some st)
    then have "t = t2" using run Inr dj
      by (auto simp: DeploySpecification_def Let_def)
    then have "added t0 t = ?L # n" using n(1) by (simp add: added_def)
    then show ?thesis using n(2) L Inr by (simp add: tied_def)
  next
    case None
    let ?obs = "Join (Join [] (ServerObserver (progressObserver sv)))
                  (RelayObserver \<lparr>stream = respStream, log = None\<rparr>)"
    obtain events synced where sy: "Sync (jobSvc sv) p t2 = (events, synced)"
      by (cases "Sync (jobSvc sv) p t2")
    obtain r4 t4 where em: "emit ?obs events (t2 @ [JobSync p]) = (r4, t4)"
      by (cases "emit ?obs events (t2 @ [JobSync p])")
    from emit_added[of ?obs events "t2 @ [JobSync p]"] em obtain m where
      m: "t4 = (t2 @ [JobSync p]) @ m" "\<forall>c\<in>set m. relay_event c" by auto
    have "t = t4" using run Inr dj None sy em
      by (cases r4; cases synced) (auto simp: DeploySpecification_def Let_def)
    then have a: "added t0 t = ?L # n @ JobSync p # m" using m(1) n(1) by (simp add: added_def)
    note rm = relay_events_tied[OF m(2)]
    have f: "faithful sv t0 (?L # n @ JobSync p # m)"
      using L n(2) rm by (simp add: tied_def faithful_append)
    have c: "created_jobs (?L # n @ JobSync p # m) = adapted_ok (?L # n @ JobSync p # m)"
      using n(2) rm relay_events_adapted[OF m(2)]
      by (simp add: tied_def created_jobs_append adapted_ok_append)
    have u: "\<forall>q\<in>set (projects_used (?L # n @ JobSync p # m)). q = p"
      using n(2) rm by (simp add: tied_def projects_used_append)
    show ?thesis using a f c u Inr by auto
  qed
qed

text \<open>
  Read from the collaborators' side: a failed lookup ends the request at once; when
  the jobs before a job went through, a failed adaptation or a failed \<open>Create\<close> of
  that job ends the request with the failure's text, and nothing after it happens.
\<close>

lemma deployJobs_append:
  "deployJobs sv p (xs @ ys) t =
     (case deployJobs sv p xs t of
        (None, t1) \<Rightarrow> deployJobs sv p ys t1
      | (Some st, t1) \<Rightarrow> (Some st, t1))"
  by (induction xs arbitrary: t) (auto simp: Let_def split: sum.splits option.splits)

lemma DeploySpecification_adapt_failure:
  assumes "repo_GetByName (New (projectRepoFactory sv)) (deploy_ProjectName req) t0 = Inr p"
    and "deploy_Jobs req = pre @ jb # post"
    and "deployJobs sv p pre (t0 @ [RepoGetByName (deploy_ProjectName req) (Inr p)]) = (None, t1)"
    and "FromJobProto (adapter sv) jb t1 = Inl err"
  shows "DeploySpecification sv req respStream t0 =
           (Return (Some (Status Internal (Error err))), t1 @ [AdapterFromJobProto jb (Inl err)])"
  using assms by (simp add: DeploySpecification_def Let_def deployJobs_append)

lemma DeploySpecification_Create_failure:
  assumes "repo_GetByName (New (projectRepoFactory sv)) (deploy_ProjectName req) t0 = Inr p"
    and "deploy_Jobs req = pre @ jb # post"
    and "deployJobs sv p pre (t0 @ [RepoGetByName (deploy_ProjectName req) (Inr p)]) = (None, t1)"
    and "FromJobProto (adapter sv) jb t1 = Inr js"
    and "Create (jobSvc sv) js p (t1 @ [AdapterFromJobProto jb (Inr js)]) = Some err"
  shows "DeploySpecification sv req respStream t0 =
           (Return (Some (Status Internal (Error err))),
            t1 @ [AdapterFromJobProto jb (Inr js), JobCreate js p (Some err)])"
  using assms by (simp add: DeploySpecification_def Let_def deployJobs_append)

lemma DeploySpecification_lookup_failure:
  assumes "repo_GetByName (New (projectRepoFactory sv)) (deploy_ProjectName req) t0 = Inl err"
  shows "DeploySpecification sv req respStream t0 =
           (Return (Some (Status Internal (Error err))),
            t0 @ [RepoGetByName (deploy_ProjectName req) (Inl err)])"
  using assms by (simp add: DeploySpecification_def Let_def)

text \<open>
  Claim C1. A run of \<open>DeploySpecification\<close> from any trace starts with the project
  lookup and hands the adapter a prefix of the batch, in order. Every lookup,
  adaptation and \<open>Create\<close> in the trace carries the answer the collaborator gives on
  the trace before it; \<open>Create\<close> receives exactly the jobs the adapter produced, and
  \<open>Create\<close> and \<open>Sync\<close> receive the project the lookup returned. When the lookup, an
  adaptation or a \<open>Create\<close> fails, that failure is the last thing the handler does:
  the request ends with the terminal status \<open>Internal\<close> carrying the failure's text,
  no later job is adapted or persisted, \<open>Sync\<close> is not invoked and nothing is sent on
  the stream. \<open>Sync\<close> is invoked exactly when no setup step failed, and then every
  job of the batch has been adapted and persisted.
\<close>

theorem DeploySpecification_setup_failure_aborts:
  assumes run: "DeploySpecification sv req respStream t0 = (out, t)"
  shows "t = t0 @ added t0 t \<and>
     hd (added t0 t) = RepoGetByName (deploy_ProjectName req)
        (repo_GetByName (New (projectRepoFactory sv)) (deploy_ProjectName req) t0) \<and>
     (\<forall>i<length (added t0 t). answered sv (t0 @ take i (added t0 t)) (added t0 t ! i)) \<and>
     created_jobs (added t0 t) = adapted_ok (added t0 t) \<and>
     (\<forall>q\<in>set (projects_used (added t0 t)).
        repo_GetByName (New (projectRepoFactory sv)) (deploy_ProjectName req) t0 = Inr q) \<and>
     prefix (adapted_jobs (added t0 t)) (deploy_Jobs req) \<and>
     length (created_jobs (added t0 t)) \<le> length (adapted_jobs (added t0 t)) \<and>
     ((\<exists>c\<in>set (added t0 t). setup_failed c) \<longrightarrow>
        setup_failed (last (added t0 t)) \<and>
        (\<forall>c\<in>set (butlast (added t0 t)). \<not> setup_failed c) \<and>
        out = Return (Some (Status Internal (failure_text (last (added t0 t))))) \<and>
        (\<forall>c\<in>set (added t0 t). \<not> is_Sync c \<and> \<not> is_Send c)) \<and>
     ((\<exists>c\<in>set (added t0 t). is_Sync c) \<longleftrightarrow> (\<forall>c\<in>set (added t0 t). \<not> setup_failed c)) \<and>
     ((\<exists>c\<in>set (added t0 t). is_Sync c) \<longrightarrow>
        adapted_jobs (added t0 t) = deploy_Jobs req \<and>
        length (created_jobs (added t0 t)) = length (deploy_Jobs req))"
proof -
  note ev = DeploySpecification_events[OF run]
  note ti = DeploySpecification_tied[OF run]
  have ans: "\<forall>i<length (added t0 t). answered sv (t0 @ take i (added t0 t)) (added t0 t ! i)"
    using ti faithful_nth by blast
  show ?thesis using ev ti ans by blast
qed

lemma run_disk_full:
  "DeploySpecification fullDiskServer goodRequest streamUp [] =
     (Return (Some (Status Internal ''disk full'')),
      [RepoGetByName ''humara-projectSpec'' (Inr projectSpec),
       AdapterFromJobProto (JobSpecification ''job-1'') (Inr jobSpec1),
       JobCreate jobSpec1 projectSpec (Some (GoError PersistenceError ''disk full''))])"
  by (simp add: DeploySpecification_def fullDiskServer_def exampleServer_def goodRequest_def
        exampleRepo_def exampleAdapter_def exampleJobService_def Let_def)

lemma run_unknown_project:
  "DeploySpecification exampleServer
       \<lparr>deploy_ProjectName = ''nowhere'', deploy_Jobs = [JobSpecification ''job-1'']\<rparr> streamUp [] =
     (Return (Some (Status Internal ''project not found'')),
      [RepoGetByName ''nowhere'' (Inl (GoError NotFoundError ''project not found''))])"
  by (simp add: DeploySpecification_def exampleServer_def exampleRepo_def Let_def)

text \<open>
  A job store that cannot write: the first \<open>Create\<close> fails and the request ends with
  its error. A batch of three whose second job cannot be adapted: the first job is
  adapted and persisted, the second fails, the third is never touched.
\<close>

theorem DeploySpecification_setup_failure_aborts_witness:
  "DeploySpecification fullDiskServer goodRequest streamUp [] =
     (Return (Some (Status Internal ''disk full'')),
      [RepoGetByName ''humara-projectSpec'' (Inr projectSpec),
       AdapterFromJobProto (JobSpecification ''job-1'') (Inr jobSpec1),
       JobCreate jobSpec1 projectSpec (Some (GoError PersistenceError ''disk full''))]) \<and>
   Create (jobSvc fullDiskServer) jobSpec1 projectSpec
      [RepoGetByName ''humara-projectSpec'' (Inr projectSpec),
       AdapterFromJobProto (JobSpecification ''job-1'') (Inr jobSpec1)] =
     Some (GoError PersistenceError ''disk full'') \<and>
   filter is_Sync (added [] (snd (DeploySpecification fullDiskServer goodRequest streamUp []))) = [] \<and>
   filter is_Send (added [] (snd (DeploySpecification fullDiskServer goodRequest streamUp []))) = [] \<and>
   DeploySpecification exampleServer failingRequest streamUp [] =
     (Return (Some (Status Internal ''unknown task'')),
      [RepoGetByName ''humara-projectSpec'' (Inr projectSpec),
       AdapterFromJobProto (JobSpecification ''job-1'') (Inr jobSpec1),
       JobCreate jobSpec1 projectSpec None,
       AdapterFromJobProto (JobSpecification ''job-x'') (Inl (GoError AdaptationError ''unknown task''))]) \<and>
   FromJobProto (adapter exampleServer) (JobSpecification ''job-x'')
      [RepoGetByName ''humara-projectSpec'' (Inr projectSpec),
       AdapterFromJobProto (JobSpecification ''job-1'') (Inr jobSpec1),
       JobCreate jobSpec1 projectSpec None] =
     Inl (GoError AdaptationError ''unknown task'') \<and>
   adapted_jobs (added [] (snd (DeploySpecification exampleServer failingRequest streamUp []))) =
     [JobSpecification ''job-1'', JobSpecification ''job-x''] \<and>
   filter is_Sync (added [] (snd (DeploySpecification exampleServer failingRequest streamUp []))) = [] \<and>
   filter is_Send (added [] (snd (DeploySpecification exampleServer failingRequest streamUp []))) = []"
proof -
  let ?d = "[RepoGetByName ''humara-projectSpec'' (Inr projectSpec),
       AdapterFromJobProto (JobSpecification ''job-1'') (Inr jobSpec1),
       JobCreate jobSpec1 projectSpec (Some (GoError PersistenceError ''disk full''))]"
  let ?f = "[RepoGetByName ''humara-projectSpec'' (Inr projectSpec),
       AdapterFromJobProto (JobSpecification ''job-1'') (Inr jobSpec1),
       JobCreate jobSpec1 projectSpec None,
       AdapterFromJobProto (JobSpecification ''job-x'') (Inl (GoError AdaptationError ''unknown task''))]"
  note d = DeploySpecification_setup_failure_aborts[OF run_disk_full]
  note f = DeploySpecification_setup_failure_aborts[OF run_failing]
  have dfail: "\<exists>c\<in>set (added [] ?d). setup_failed c" by (simp add: added_def)
  have ffail: "\<exists>c\<in>set (added [] ?f). setup_failed c" by (simp add: added_def)
  have d1: "\<forall>c\<in>set (added [] ?d). \<not> is_Sync c \<and> \<not> is_Send c" using d dfail by blast
  have f1: "\<forall>c\<in>set (added [] ?f). \<not> is_Sync c \<and> \<not> is_Send c" using f ffail by blast
  have da: "\<forall>i<length (added [] ?d).
              answered fullDiskServer ([] @ take i (added [] ?d)) (added [] ?d ! i)"
    using d by blast
  have "2 < length (added [] ?d)" by (simp add: added_def)
  with da have "answered fullDiskServer ([] @ take 2 (added [] ?d)) (added [] ?d ! 2)"
    by blast
  then have d2: "Create (jobSvc fullDiskServer) jobSpec1 projectSpec
      [RepoGetByName ''humara-projectSpec'' (Inr projectSpec),
       AdapterFromJobProto (JobSpecification ''job-1'') (Inr jobSpec1)] =
     Some (GoError PersistenceError ''disk full'')"
    by (simp add: added_def)
  have fa: "\<forall>i<length (added [] ?f).
              answered exampleServer ([] @ take i (added [] ?f)) (added [] ?f ! i)"
    using f by blast
  have "3 < length (added [] ?f)" by (simp add: added_def)
  with fa have "answered exampleServer ([] @ take 3 (added [] ?f)) (added [] ?f ! 3)"
    by blast
  then have f2: "FromJobProto (adapter exampleServer) (JobSpecification ''job-x'')
      [RepoGetByName ''humara-projectSpec'' (Inr projectSpec),
       AdapterFromJobProto (JobSpecification ''job-1'') (Inr jobSpec1),
       JobCreate jobSpec1 projectSpec None] =
     Inl (GoError AdaptationError ''unknown task'')"
    by (simp add: added_def)
  have d3: "filter is_Sync (added [] ?d) = [] \<and> filter is_Send (added [] ?d) = []"
    using d1 by (simp add: filter_empty_conv)
  have f3: "filter is_Sync (added [] ?f) = [] \<and> filter is_Send (added [] ?f) = []"
    using f1 by (simp add: filter_empty_conv)
  have f4: "adapted_jobs (added [] ?f) = [JobSpecification ''job-1'', JobSpecification ''job-x'']"
    by (simp add: added_def)
  show ?thesis
    unfolding run_disk_full run_failing snd_conv
    using d2 f2 d3 f3 f4 by blast
qed

section \<open>The metadata adapter: properties\<close>

lemma FromJobSpec_test:
  "FromJobSpec projectSpec jobSpec1 = Inr expectedResourceMetadata"
  by (simp add: FromJobSpec_def projectSpec_def jobSpec1_def expectedResourceMetadata_def
        execUnit_def hookUnit_def flattenDependency_def flattenHook_def)

lemma flattenConfig_id: "flattenConfig cs = cs"
  by (induction cs) simp_all

lemma flattenHooks_map: "flattenHooks hs = map flattenHook hs"
  by (induction hs) simp_all

lemma flattenDependencies_Inr:
  "flattenDependencies p deps = Inr ds \<Longrightarrow>
     length ds = length deps \<and>
     (\<forall>i < length deps. flattenDependency p (snd (deps ! i)) = Inr (ds ! i))"
proof (induction deps arbitrary: ds)
  case Nil
  then show ?case by simp
next
  case (Cons a deps)
  obtain name dep where a: "a = (name, dep)" by (cases a)
  from Cons.prems a obtain d ds' where
    d: "flattenDependency p dep = Inr d" and
    ds': "flattenDependencies p deps = Inr ds'" and
    ds: "ds = d # ds'"
    by (auto split: sum.splits)
  from Cons.IH[OF ds'] have ih: "length ds' = length deps"
    "\<forall>i < length deps. flattenDependency p (snd (deps ! i)) = Inr (ds' ! i)" by auto
  show ?case
  proof (intro conjI allI impI)
    show "length ds = length (a # deps)" using ih ds by simp
  next
    fix i assume "i < length (a # deps)"
    then show "flattenDependency p (snd ((a # deps) ! i)) = Inr (ds ! i)"
      using ih d ds a by (cases i) auto
  qed
qed

lemma FromJobSpec_Inr:
  assumes "FromJobSpec p j = Inr md"
  shows "md_Urn md = project_Name p @ ''::job/'' @ job_Name j"
    and "flattenDependencies p (job_Dependencies j) = Inr (md_Dependencies md)"
    and "taskmd_Config (md_Task md) = flattenConfig (task_Config (job_Task j))"
    and "md_Hooks md = flattenHooks (job_Hooks j)"
  using assms by (auto simp: FromJobSpec_def Let_def split: sum.splits)

lemma flattenDependency_Inr:
  "flattenDependency p dep = Inr d \<Longrightarrow>
     depmd_Tenant d = (case dep_Project dep of Some q \<Rightarrow> project_Name q | None \<Rightarrow> project_Name p) \<and>
     depmd_Job d = dep_JobName dep \<and> depmd_Type d = String (dep_Type dep)"
  by (auto simp: flattenDependency_def split: if_splits)

text \<open>
  Claim C2. The record \<open>FromJobSpec\<close> produces has the Urn
  \<open>project.Name + "::job/" + job.Name\<close>; any two calls on the same project name and
  job name produce the same Urn, whatever else differs. (\<open>FromJobSpec\<close> produces no
  record when \<open>GenerateDestination\<close> or a dependency fails.)
\<close>

theorem FromJobSpec_Urn:
  "FromJobSpec p j = Inr md \<Longrightarrow>
     md_Urn md = project_Name p @ ''::job/'' @ job_Name j \<and>
     (\<forall>p' j' md'. FromJobSpec p' j' = Inr md' \<and> project_Name p' = project_Name p \<and>
          job_Name j' = job_Name j \<longrightarrow> md_Urn md' = md_Urn md)"
  by (auto simp: FromJobSpec_def Let_def split: sum.splits)

text \<open>The values of the test: project \<open>humara-projectSpec\<close>, job \<open>job-1\<close>.\<close>

theorem FromJobSpec_Urn_witness:
  "FromJobSpec projectSpec jobSpec1 = Inr expectedResourceMetadata \<and>
   project_Name projectSpec = ''humara-projectSpec'' \<and> job_Name jobSpec1 = ''job-1'' \<and>
   md_Urn expectedResourceMetadata = ''humara-projectSpec::job/job-1''"
proof -
  have p: "project_Name projectSpec = ''humara-projectSpec''" by (simp add: projectSpec_def)
  have j: "job_Name jobSpec1 = ''job-1''" by (simp add: jobSpec1_def)
  have "md_Urn expectedResourceMetadata = project_Name projectSpec @ ''::job/'' @ job_Name jobSpec1"
    using FromJobSpec_Urn[OF FromJobSpec_test] by blast
  then have "md_Urn expectedResourceMetadata = ''humara-projectSpec::job/job-1''"
    by (simp add: p j)
  with p j FromJobSpec_test show ?thesis by blast
qed

text \<open>
  Claim C3. In the record \<open>FromJobSpec\<close> produces, the flattened dependencies stand
  one for one for the job's dependency entries: the tenant is the name of the entry's
  project when it has one and the current project's name when it has none, the job is
  the entry's job name, the type is the text of the entry's type.
\<close>

theorem FromJobSpec_Dependencies:
  "FromJobSpec p j = Inr md \<Longrightarrow>
     length (md_Dependencies md) = length (job_Dependencies j) \<and>
     (\<forall>i < length (job_Dependencies j).
        (\<forall>depProject. dep_Project (snd (job_Dependencies j ! i)) = Some depProject \<longrightarrow>
             depmd_Tenant (md_Dependencies md ! i) = project_Name depProject) \<and>
        (dep_Project (snd (job_Dependencies j ! i)) = None \<longrightarrow>
             depmd_Tenant (md_Dependencies md ! i) = project_Name p) \<and>
        depmd_Job (md_Dependencies md ! i) = dep_JobName (snd (job_Dependencies j ! i)) \<and>
        depmd_Type (md_Dependencies md ! i) = String (dep_Type (snd (job_Dependencies j ! i))))"
proof -
  assume ok: "FromJobSpec p j = Inr md"
  note fl = flattenDependencies_Inr[OF FromJobSpec_Inr(2)[OF ok]]
  have each: "depmd_Tenant (md_Dependencies md ! i) =
                (case dep_Project (snd (job_Dependencies j ! i)) of
                   Some q \<Rightarrow> project_Name q | None \<Rightarrow> project_Name p) \<and>
              depmd_Job (md_Dependencies md ! i) = dep_JobName (snd (job_Dependencies j ! i)) \<and>
              depmd_Type (md_Dependencies md ! i) = String (dep_Type (snd (job_Dependencies j ! i)))"
    if "i < length (job_Dependencies j)" for i
  proof -
    from fl that have "flattenDependency p (snd (job_Dependencies j ! i)) = Inr (md_Dependencies md ! i)"
      by blast
    then show ?thesis by (rule flattenDependency_Inr)
  qed
  have len: "length (md_Dependencies md) = length (job_Dependencies j)" using fl by blast
  show ?thesis using len each by simp
qed

lemma FromJobSpec_intra:
  "FromJobSpec projectSpec jobSpec1_intra =
     Inr (expectedResourceMetadata\<lparr>md_Dependencies :=
            [\<lparr>depmd_Tenant = ''humara-projectSpec'', depmd_Job = ''job-3'', depmd_Type = ''intra''\<rparr>]\<rparr>)"
  by (simp add: FromJobSpec_def projectSpec_def jobSpec1_intra_def jobSpec1_def
        expectedResourceMetadata_def execUnit_def hookUnit_def flattenDependency_def flattenHook_def)

text \<open>
  The dependency of the test, on \<open>job-2\<close> of \<open>some_other_project\<close>, and a dependency
  without a project.
\<close>

theorem FromJobSpec_Dependencies_witness:
  "FromJobSpec projectSpec jobSpec1 = Inr expectedResourceMetadata \<and>
   length (md_Dependencies expectedResourceMetadata) = 1 \<and>
   depmd_Tenant (md_Dependencies expectedResourceMetadata ! 0) = ''some_other_project'' \<and>
   depmd_Job (md_Dependencies expectedResourceMetadata ! 0) = ''job-2'' \<and>
   depmd_Type (md_Dependencies expectedResourceMetadata ! 0) = ''inter'' \<and>
   depmd_Tenant (md_Dependencies (projr (FromJobSpec projectSpec jobSpec1_intra)) ! 0) =
     ''humara-projectSpec''"
proof -
  have deps: "job_Dependencies jobSpec1 =
      [(''job-2'', \<lparr>dep_Project = Some \<lparr>project_Name = ''some_other_project'', project_Config = []\<rparr>,
                   dep_JobName = ''job-2'', dep_Type = JobSpecDependencyTypeInter\<rparr>)]"
    by (simp add: jobSpec1_def)
  have deps': "job_Dependencies jobSpec1_intra =
      [(''job-3'', \<lparr>dep_Project = None, dep_JobName = ''job-3'',
                   dep_Type = JobSpecDependencyTypeIntra\<rparr>)]"
    by (simp add: jobSpec1_intra_def)
  have p: "project_Name projectSpec = ''humara-projectSpec''" by (simp add: projectSpec_def)
  have a: "length (md_Dependencies expectedResourceMetadata) = 1 \<and>
   depmd_Tenant (md_Dependencies expectedResourceMetadata ! 0) = ''some_other_project'' \<and>
   depmd_Job (md_Dependencies expectedResourceMetadata ! 0) = ''job-2'' \<and>
   depmd_Type (md_Dependencies expectedResourceMetadata ! 0) = ''inter''"
    using FromJobSpec_Dependencies[OF FromJobSpec_test] by (simp add: deps)
  have b: "depmd_Tenant (md_Dependencies (projr (FromJobSpec projectSpec jobSpec1_intra)) ! 0) =
     ''humara-projectSpec''"
    using FromJobSpec_Dependencies[OF FromJobSpec_intra] by (simp add: deps' p FromJobSpec_intra)
  from a b FromJobSpec_test show ?thesis by blast
qed

text \<open>
  Claim C7. The flattened task config is the job's task config, entry for entry in
  the same order; the output has one hook per hook of the job, in the job's order,
  each with its unit's name and with its own config, entry for entry in the same
  order.
\<close>

theorem FromJobSpec_Config_order:
  "FromJobSpec p j = Inr md \<Longrightarrow>
     taskmd_Config (md_Task md) = task_Config (job_Task j) \<and>
     length (md_Hooks md) = length (job_Hooks j) \<and>
     (\<forall>i < length (job_Hooks j).
        hookmd_Name (md_Hooks md ! i) = hook_GetName (hookspec_Unit (job_Hooks j ! i)) \<and>
        hookmd_Config (md_Hooks md ! i) = hookspec_Config (job_Hooks j ! i))"
  by (simp add: FromJobSpec_Inr(3,4) flattenConfig_id flattenHooks_map flattenHook_def)

text \<open>
  The hook of the test keeps \<open>SAMPLE_CONFIG\<close> before
  \<open>PRODUCER_CONFIG_BOOTSTRAP_SERVERS\<close>, which sorting by name would swap.
\<close>

theorem FromJobSpec_Config_order_witness:
  "FromJobSpec projectSpec jobSpec1 = Inr expectedResourceMetadata \<and>
   taskmd_Config (md_Task expectedResourceMetadata) = [\<lparr>config_Name = ''do'', config_Value = ''this''\<rparr>] \<and>
   map config_Name (hookmd_Config (md_Hooks expectedResourceMetadata ! 0)) =
     [''SAMPLE_CONFIG'', ''PRODUCER_CONFIG_BOOTSTRAP_SERVERS'']"
proof -
  have t: "task_Config (job_Task jobSpec1) = [\<lparr>config_Name = ''do'', config_Value = ''this''\<rparr>]"
    by (simp add: jobSpec1_def)
  have h: "length (job_Hooks jobSpec1) = 1 \<and>
           map config_Name (hookspec_Config (job_Hooks jobSpec1 ! 0)) =
             [''SAMPLE_CONFIG'', ''PRODUCER_CONFIG_BOOTSTRAP_SERVERS'']"
    by (simp add: jobSpec1_def)
  have "taskmd_Config (md_Task expectedResourceMetadata) = [\<lparr>config_Name = ''do'', config_Value = ''this''\<rparr>] \<and>
   map config_Name (hookmd_Config (md_Hooks expectedResourceMetadata ! 0)) =
     [''SAMPLE_CONFIG'', ''PRODUCER_CONFIG_BOOTSTRAP_SERVERS'']"
    using FromJobSpec_Config_order[OF FromJobSpec_test] t h by simp
  with FromJobSpec_test show ?thesis by blast
qed

section \<open>GetJob: properties\<close>

text \<open>
  Claim C5, as amended. When the project lookup of \<open>GetJob\<close> fails, the handler
  returns a terminal status and the lookup is all it did: \<open>jobSvc.GetByName\<close> is never
  invoked. A failure of the project lookup or of the job lookup is returned as a
  status of code \<open>Internal\<close> carrying the error's text, and \<open>Internal\<close> is the only
  code \<open>GetJob\<close> ever returns.
\<close>

theorem GetJob_lookup_failure:
  "GetJob sv req t0 = (r, t) \<Longrightarrow>
     (\<forall>err. repo_GetByName (New (projectRepoFactory sv)) (getjob_ProjectName req) t0 = Inl err \<longrightarrow>
        r = Inl (Status Internal (Error err)) \<and>
        t = t0 @ [RepoGetByName (getjob_ProjectName req) (Inl err)] \<and>
        filter is_JobGetByName (added t0 t) = []) \<and>
     (\<forall>projSpec err.
        repo_GetByName (New (projectRepoFactory sv)) (getjob_ProjectName req) t0 = Inr projSpec \<and>
        job_GetByName (jobSvc sv) (getjob_JobName req) projSpec
          (t0 @ [RepoGetByName (getjob_ProjectName req) (Inr projSpec)]) = Inl err \<longrightarrow>
        r = Inl (Status Internal (Error err))) \<and>
     (terminal_code r = None \<or> terminal_code r = Some Internal)"
  by (auto simp: GetJob_def Let_def added_def split: sum.splits)

lemma GetJob_unknown_project:
  "GetJob exampleServer unknownProjectRequest [] =
     (Inl (Status Internal ''project not found''),
      [RepoGetByName ''nowhere'' (Inl (GoError NotFoundError ''project not found''))])"
  by (simp add: GetJob_def exampleServer_def unknownProjectRequest_def exampleRepo_def Let_def)

lemma GetJob_unreachable:
  "GetJob unreachableServer knownJobRequest [] =
     (Inl (Status Internal ''connection refused''),
      [RepoGetByName ''humara-projectSpec'' (Inr projectSpec),
       JobGetByName ''job-1'' projectSpec (Inl (GoError PersistenceError ''connection refused''))])"
  by (simp add: GetJob_def unreachableServer_def exampleServer_def knownJobRequest_def
        exampleRepo_def exampleJobService_def Let_def)

theorem GetJob_lookup_failure_witness:
  "GetJob exampleServer unknownProjectRequest [] =
     (Inl (Status Internal ''project not found''),
      [RepoGetByName ''nowhere'' (Inl (GoError NotFoundError ''project not found''))]) \<and>
   filter is_JobGetByName (added [] (snd (GetJob exampleServer unknownProjectRequest []))) = [] \<and>
   terminal_code (fst (GetJob exampleServer unknownProjectRequest [])) = Some Internal"
proof -
  have l: "repo_GetByName (New (projectRepoFactory exampleServer))
             (getjob_ProjectName unknownProjectRequest) [] =
           Inl (GoError NotFoundError ''project not found'')"
    by (simp add: exampleServer_def unknownProjectRequest_def exampleRepo_def)
  from GetJob_lookup_failure[OF GetJob_unknown_project] l
  have "filter is_JobGetByName
          (added [] [RepoGetByName ''nowhere'' (Inl (GoError NotFoundError ''project not found''))]) = []"
    by blast
  then show ?thesis by (simp add: GetJob_unknown_project)
qed

text \<open>
  Claim C5 as stated fails: for an unknown project the terminal status has the code
  \<open>Internal\<close>, not \<open>NotFound\<close>, the same code as for a job store that cannot be
  reached.
\<close>

theorem GetJob_not_found_is_Internal:
  "terminal_code (fst (GetJob exampleServer unknownProjectRequest [])) = Some Internal \<and>
   terminal_code (fst (GetJob exampleServer unknownProjectRequest [])) \<noteq> Some NotFound \<and>
   terminal_code (fst (GetJob exampleServer unknownProjectRequest [])) =
     terminal_code (fst (GetJob unreachableServer knownJobRequest []))"
  by (simp add: GetJob_unknown_project GetJob_unreachable)

section \<open>Version: properties\<close>

text \<open>
  Claim C8, as amended. \<open>Version\<close> never fails; its response carries the server's
  version alone. The client's declared version goes into the line printed on standard
  output, and nowhere else.
\<close>

theorem Version_response:
  "Version sv req t =
     (Inr \<lparr>Server = version sv\<rparr>,
      t @ [Printf (''client with version '' @ Client req @ '' requested for ping ''),
           LogI (length (''client with version '' @ Client req @ '' requested for ping ''))])"
  by (simp add: Version_def Let_def)

theorem Version_response_witness:
  "Version exampleServer \<lparr>Client = ''0.0.2''\<rparr> [] =
     (Inr \<lparr>Server = ''0.0.1''\<rparr>,
      [Printf ''client with version 0.0.2 requested for ping '',
       LogI (length ''client with version 0.0.2 requested for ping '')])"
  using Version_response[of exampleServer "\<lparr>Client = ''0.0.2''\<rparr>" "[]"]
  by (simp add: exampleServer_def)

text \<open>
  Claim C8 as stated fails: two callers declaring different versions receive the same
  response, which holds the server's version only.
\<close>

theorem Version_response_ignores_client:
  "fst (Version exampleServer \<lparr>Client = ''0.0.1''\<rparr> []) = Inr \<lparr>Server = ''0.0.1''\<rparr> \<and>
   fst (Version exampleServer \<lparr>Client = ''0.0.2''\<rparr> []) = Inr \<lparr>Server = ''0.0.1''\<rparr> \<and>
   fst (Version exampleServer \<lparr>Client = ''0.0.1''\<rparr> []) =
     fst (Version exampleServer \<lparr>Client = ''0.0.2''\<rparr> [])"
  by (simp add: Version_def Let_def exampleServer_def)

section \<open>The relay observer: properties\<close>

lemma Notify_send_ok:
  "Send (stream obs) resp t = None \<Longrightarrow>
   resp = \<lparr>Succcess = (er = None), JobName = job_Name j,
           Message = (case er of None \<Rightarrow> '''' | Some e \<Rightarrow> Error e)\<rparr> \<Longrightarrow>
   Notify obs (EventJobUpload j er) t = (Return (), t @ [StreamSend resp None])"
  by (cases er) (simp_all add: Notify_def Let_def)

lemma Notify_send_failure_logged:
  "Send (stream obs) resp t = Some err \<Longrightarrow> log obs = Some lg \<Longrightarrow>
   resp = \<lparr>Succcess = (er = None), JobName = job_Name j,
           Message = (case er of None \<Rightarrow> '''' | Some e \<Rightarrow> Error e)\<rparr> \<Longrightarrow>
   Notify obs (EventJobUpload j er) t =
     (Return (), t @ [StreamSend resp (Some err),
                      LogError (''failed to send deploy spec ack for: '' @ job_Name j @ '': '' @ Error err)])"
  by (cases er) (simp_all add: Notify_def Let_def Wrapf_def)

lemma Notify_send_failure_nil_log:
  "Send (stream obs) resp t = Some err \<Longrightarrow> log obs = None \<Longrightarrow>
   resp = \<lparr>Succcess = (er = None), JobName = job_Name j,
           Message = (case er of None \<Rightarrow> '''' | Some e \<Rightarrow> Error e)\<rparr> \<Longrightarrow>
   Notify obs (EventJobUpload j er) t = (Panic nil_dereference, t @ [StreamSend resp (Some err)])"
  by (cases er) (simp_all add: Notify_def Let_def)

text \<open>
  Claim C6 fails on the code. \<open>DeploySpecification\<close> builds the relay observer
  without a logger, so when \<open>Send\<close> fails during \<open>Sync\<close> the call \<open>obs.log.Error\<close>
  dereferences \<open>nil\<close>: \<open>Notify\<close> panics, nothing is logged, and the request ends in
  the panic instead of \<open>Sync\<close>'s result.
\<close>

theorem DeploySpecification_relay_failure_panics:
  "DeploySpecification exampleServer goodRequest streamDown [] =
     (Panic nil_dereference,
      [RepoGetByName ''humara-projectSpec'' (Inr projectSpec),
       AdapterFromJobProto (JobSpecification ''job-1'') (Inr jobSpec1),
       JobCreate jobSpec1 projectSpec None,
       JobSync projectSpec,
       ProgressNotify (EventJobUpload jobSpec1 None),
       StreamSend \<lparr>Succcess = True, JobName = ''job-1'', Message = ''''\<rparr>
         (Some (GoError TransportError ''transport is closing''))])"
  by (simp add: DeploySpecification_def exampleServer_def goodRequest_def exampleRepo_def
        exampleAdapter_def exampleJobService_def Let_def Join_def Notify_def streamDown_def
        jobSpec1_def)

text \<open>
  Claim C9. On an event that is not a job upload, \<open>Notify\<close> returns normally and
  leaves the trace as it was: nothing is sent, nothing is logged.
\<close>

theorem Notify_ignores_other_events:
  "\<not> is_EventJobUpload e \<Longrightarrow> Notify obs e t = (Return (), t)"
  by (cases e) (simp_all add: Notify_def)

theorem Notify_ignores_other_events_witness:
  "\<not> is_EventJobUpload (EventOther ''job.EventJobSpecCompile'') \<and>
   Notify \<lparr>stream = streamDown, log = None\<rparr> (EventOther ''job.EventJobSpecCompile'')
     [JobSync projectSpec] = (Return (), [JobSync projectSpec])"
  using Notify_ignores_other_events[of "EventOther ''job.EventJobSpecCompile''"
          "\<lparr>stream = streamDown, log = None\<rparr>" "[JobSync projectSpec]"]
  by simp

text \<open>
  Claim C10. On a job upload event, \<open>Notify\<close> sends exactly one acknowledgment: its
  \<open>JobName\<close> is the job's name, its success flag is true exactly when the event's
  \<open>Err\<close> is \<open>nil\<close>, its \<open>Message\<close> is the error's text, and empty without an error.
\<close>

theorem Notify_ack_message:
  "acks (added t (snd (Notify obs (EventJobUpload j er) t))) =
     [\<lparr>Succcess = (er = None), JobName = job_Name j,
       Message = (case er of None \<Rightarrow> '''' | Some e \<Rightarrow> Error e)\<rparr>]"
  by (cases er) (auto simp: Notify_def Let_def added_def split: option.splits)

theorem Notify_ack_message_witness:
  "acks (added [] (snd (Notify \<lparr>stream = streamUp, log = None\<rparr>
      (EventJobUpload jobSpec1 (Some (GoError SyncError ''upload failed''))) []))) =
     [\<lparr>Succcess = False, JobName = ''job-1'', Message = ''upload failed''\<rparr>]"
  using Notify_ack_message[of "[]" "\<lparr>stream = streamUp, log = None\<rparr>" jobSpec1
          "Some (GoError SyncError ''upload failed'')"]
  by (simp add: jobSpec1_def)

end
